theory Spec2Isabelle
  imports Complex_Main
begin

section \<open>Tensors\<close>

text \<open>
  The model inspects only one- and two-dimensional tensors: a vector is a list of
  numbers, a matrix a list of rows. The 32-bit floats of the program are modelled by real
  numbers: rounding is not modelled, and every number is finite. Overflow is modelled
  where a result depends on it, in \<open>normalize_row\<close>. Every other tensor (image, feature map,
  pooled feature, detection label, box target, region list) is a value of one opaque
  type \<open>'t\<close>: the model hands it from one collaborator to the next and never looks inside.
\<close>

type_synonym vec = "real list"
type_synonym mat = "real list list"

definition sum_squares :: "vec \<Rightarrow> real" where
  "sum_squares v = sum_list (map (\<lambda>x. x * x) v)"

definition l2norm :: "vec \<Rightarrow> real" where
  "l2norm v = sqrt (sum_squares v)"

definition dot :: "vec \<Rightarrow> vec \<Rightarrow> real" where
  "dot u v = sum_list (map2 (*) u v)"

text \<open>
  \<^verbatim>\<open>torch.nn.functional.normalize(input, p=2, dim=1, eps=1e-12)\<close> divides every row
  by the larger of its L2 norm and \<open>eps\<close>. The norm is computed in 32-bit floats: a sum of
  squares above the largest float, \<open>flt_max = (2 - 2^-23) * 2^127\<close>, is infinite there, the
  norm with it, and every entry of the row divided by it is \<open>0\<close>.
\<close>

definition eps :: real where
  "eps = 1 / 10 ^ 12"

definition flt_max :: real where
  "flt_max = (2 ^ 24 - 1) * 2 ^ 104"

definition normalize_row :: "vec \<Rightarrow> vec" where
  "normalize_row v =
     (if flt_max < sum_squares v then map (\<lambda>x. 0) v
      else map (\<lambda>x. x / max (l2norm v) eps) v)"

definition func_normalize :: "mat \<Rightarrow> mat" where
  "func_normalize rows = map normalize_row rows"

datatype error =
    KeyError string
  | IOError
  | ShapeError
  | IdOutOfRange nat
  | DimMismatch
  | EmptyQueue

section \<open>Identity Bank\<close>

text \<open>
  \<open>lut\<close> and \<open>queue\<close> are the two buffers registered in \<^verbatim>\<open>SIPN.__init__\<close>.
  Modelled from the spec: the write cursor of the queue (section 4.1). It is state of the
  identity loss, which is not among the sources and takes the two buffers by reference;
  \<^verbatim>\<open>SIPN\<close> itself holds no cursor.
\<close>

record bank =
  lut :: mat
  queue :: mat
  cursor :: nat

datatype label = Background | Known nat | Unlabeled

text \<open>
  Modelled from the spec: the moving average \<open>momentum * lut[i] + (1 - momentum) * embedding\<close>
  of section 4.1, entry by entry.
\<close>

definition blend :: "real \<Rightarrow> vec \<Rightarrow> vec \<Rightarrow> vec" where
  "blend m old e = map2 (\<lambda>a x. m * a + (1 - m) * x) old e"

text \<open>
  Modelled from the spec: \<open>normalize\<close> in the update rule of section 4.1 is the division
  of a vector by its L2 norm. The spec does not say what it yields for a vector of norm
  zero, and the identity loss that computes it is not among the sources: that value is
  the parameter \<open>nz\<close>, and every theorem below holds whatever it is.
\<close>

definition normalize_spec :: "(vec \<Rightarrow> vec) \<Rightarrow> vec \<Rightarrow> vec" where
  "normalize_spec nz v = (if l2norm v = 0 then nz v else map (\<lambda>x. x / l2norm v) v)"

text \<open>
  Modelled from the spec: \<^verbatim>\<open>utils.losses.oim_loss\<close> is not among the sources. The
  update of one sample follows section 4.1: a known identity \<open>i\<close> replaces row \<open>i\<close> of
  the lookup table by the normalised blend, an unlabeled person is written at the cursor,
  which advances modulo the queue size, a background sample changes nothing. An identity
  outside the table and an embedding of the wrong dimension are fatal (sections 4.1, 7).
\<close>

fun update_one :: "(vec \<Rightarrow> vec) \<Rightarrow> real \<Rightarrow> bank \<Rightarrow> label \<times> vec \<Rightarrow> error + bank" where
  "update_one nz m b (Background, e) = Inr b"
| "update_one nz m b (Known i, e) =
     (if length (lut b) \<le> i then Inl (IdOutOfRange i)
      else if length e \<noteq> length (lut b ! i) then Inl DimMismatch
      else Inr (b\<lparr>lut := (lut b)[i := normalize_spec nz (blend m (lut b ! i) e)]\<rparr>))"
| "update_one nz m b (Unlabeled, e) =
     (if length (queue b) \<le> cursor b then Inl EmptyQueue
      else if length e \<noteq> length (queue b ! cursor b) then Inl DimMismatch
      else Inr (b\<lparr>queue := (queue b)[cursor b := e],
                  cursor := (cursor b + 1) mod length (queue b)\<rparr>))"

text \<open>
  Modelled from the spec: the samples of a batch are processed in index order; the
  buffers are mutated in place, so a fatal sample leaves the bank as the samples before
  it made it.
\<close>

fun update ::
  "(vec \<Rightarrow> vec) \<Rightarrow> real \<Rightarrow> (label \<times> vec) list \<Rightarrow> bank \<Rightarrow> (error + unit) \<times> bank" where
  "update nz m [] b = (Inr (), b)"
| "update nz m (s # ss) b =
     (case update_one nz m b s of
        Inl err \<Rightarrow> (Inl err, b)
      | Inr b' \<Rightarrow> update nz m ss b')"

text \<open>
  Modelled from the spec: every embedding against every row of \<open>lut\<close>, then every row
  of \<open>queue\<close>.
\<close>

definition similarity_logits :: "bank \<Rightarrow> mat \<Rightarrow> mat" where
  "similarity_logits b embeddings = map (\<lambda>e. map (dot e) (lut b @ queue b)) embeddings"

text \<open>
  Modelled from the spec: the identity loss (section 4.2) computes a cross entropy over
  the similarity logits of the rows with a valid (non-background) label, scaled by the
  number of ground-truth instances, and then calls the update. The cross entropy itself
  is the parameter \<open>xent\<close>, the value of \<open>normalize\<close> on a vector of norm zero the
  parameter \<open>nz\<close>.
\<close>

definition oim_loss ::
  "(vec \<Rightarrow> vec) \<Rightarrow> ((label \<times> vec) list \<Rightarrow> nat \<Rightarrow> real) \<Rightarrow> mat \<Rightarrow> label list \<Rightarrow> bank
     \<Rightarrow> nat \<Rightarrow> real \<Rightarrow> (error + real) \<times> bank" where
  "oim_loss nz xent embeddings labels b batch_scale momentum =
     (if length embeddings \<noteq> length labels then (Inl DimMismatch, b)
      else
        let logits = similarity_logits b embeddings;
            valid = filter (\<lambda>(l, row). l \<noteq> Background) (zip labels logits);
            loss = xent valid batch_scale
        in case update nz momentum (zip labels embeddings) b of
             (Inl err, b') \<Rightarrow> (Inl err, b')
           | (Inr u, b') \<Rightarrow> (Inr loss, b'))"

section \<open>The model object\<close>

record sipn =
  net_name :: string
  is_train :: bool
  num_pid :: nat
  queue_size :: nat
  lut_momentum :: real
  reid_feat_dim :: nat

definition zeros :: "nat \<Rightarrow> nat \<Rightarrow> mat" where
  "zeros r c = replicate r (replicate c 0)"

definition dataset_sizes :: "string \<Rightarrow> error + nat \<times> nat" where
  "dataset_sizes dataset_name =
     (if dataset_name = ''sysu'' then Inr (5532, 5000)
      else if dataset_name = ''prw'' then Inr (483, 500)
      else Inl (KeyError dataset_name))"

definition sipn_init :: "string \<Rightarrow> string \<Rightarrow> bool \<Rightarrow> error + sipn \<times> bank" where
  "sipn_init net dataset_name train =
     (case dataset_sizes dataset_name of
        Inl err \<Rightarrow> Inl err
      | Inr (np, qs) \<Rightarrow>
          if net \<in> set [''vgg16'', ''res34'', ''res50'', ''dense121'', ''dense161'']
          then Inr (\<lparr>net_name = net, is_train = train, num_pid = np, queue_size = qs,
                     lut_momentum = 1 / 2, reid_feat_dim = 256\<rparr>,
                    \<lparr>lut = zeros np 256, queue = zeros qs 256, cursor = 0\<rparr>)
          else Inl (KeyError net))"

text \<open>
  The collaborators of \<^verbatim>\<open>SIPN.forward\<close>: the backbone (\<open>head\<close>, \<open>tail\<close>), the proposal
  subsystem in its three call forms, the three linear heads, and the library operations
  whose values no property here depends on. \<open>view_flat\<close> is
  \<^verbatim>\<open>pooled_feat.view(pooled_feat.size(0), -1)\<close>, \<open>spatial_mean\<close> is \<^verbatim>\<open>.mean(3).mean(2)\<close>,
  \<open>cross_entropy\<close> is \<^verbatim>\<open>func.cross_entropy(cls_score.view(-1, 2), det_label.view(-1))\<close>,
  \<open>softmax\<close> is \<^verbatim>\<open>func.softmax(cls_score, 1)\<close>. \<open>oim_xent\<close> and \<open>norm_zero\<close> are the two
  parameters of the identity loss.
\<close>

record 't externals =
  head :: "'t \<Rightarrow> 't"
  tail :: "'t \<Rightarrow> 't"
  strpn_train :: "'t \<Rightarrow> mat \<Rightarrow> 't \<Rightarrow> 't \<times> 't \<times> (real \<times> real) \<times> ('t \<times> label list) \<times> 't"
  strpn_gallery :: "'t \<Rightarrow> mat \<Rightarrow> 't \<Rightarrow> 't \<times> 't \<times> 't"
  strpn_query :: "'t \<Rightarrow> mat \<Rightarrow> 't \<Rightarrow> string \<Rightarrow> 't"
  view_flat :: "'t \<Rightarrow> 't"
  spatial_mean :: "'t \<Rightarrow> 't"
  cls_score_net :: "'t \<Rightarrow> mat"
  bbox_pred_net :: "'t \<Rightarrow> mat"
  reid_feat_net :: "'t \<Rightarrow> mat"
  cross_entropy :: "mat \<Rightarrow> 't \<Rightarrow> real"
  smooth_l1_loss :: "mat \<Rightarrow> 't \<Rightarrow> real"
  oim_xent :: "(label \<times> vec) list \<Rightarrow> nat \<Rightarrow> real"
  norm_zero :: "vec \<Rightarrow> vec"
  softmax :: "mat \<Rightarrow> mat"

datatype 't outputs =
    Losses "real \<times> real \<times> real \<times> real \<times> real"
  | Gallery mat mat 't mat
  | Query mat

text \<open>
  \<^verbatim>\<open>config.yml\<close> as the call finds it: \<open>None\<close> when it cannot be opened, otherwise the
  mapping that was loaded from it.
\<close>

type_synonym config_file = "(string \<rightharpoonup> vec) option"

definition fc7_of :: "sipn \<Rightarrow> 't externals \<Rightarrow> 't \<Rightarrow> 't" where
  "fc7_of M X pooled_feat =
     (if net_name M = ''vgg16'' then tail X (view_flat X pooled_feat)
      else spatial_mean X (tail X pooled_feat))"

text \<open>
  The box head is \<^verbatim>\<open>nn.Linear(self.fc7_channels, 8)\<close>: its output has 8 columns, also
  when it has no row.
\<close>

definition bbox_pred_dim :: nat where
  "bbox_pred_dim = 8"

text \<open>
  \<^verbatim>\<open>v.unsqueeze(0).expand_as(t)\<close> for a tensor \<open>t\<close> of \<open>cols\<close> columns: one copy of the
  vector per row of \<open>t\<close>. The vector must have \<open>cols\<close> entries, or one entry, which is
  then repeated; anything else is a \<^verbatim>\<open>RuntimeError\<close>. The width is an argument because a
  list of rows does not tell it when there is no row.
\<close>

definition expand_as :: "vec \<Rightarrow> nat \<Rightarrow> mat \<Rightarrow> error + mat" where
  "expand_as v cols t =
     (if length v = cols then Inr (map (\<lambda>row. v) t)
      else if length v = 1 then Inr (map (\<lambda>row. replicate cols (hd v)) t)
      else Inl ShapeError)"

definition tensor_mul :: "mat \<Rightarrow> mat \<Rightarrow> mat" where
  "tensor_mul a b = map2 (map2 (*)) a b"

definition tensor_add :: "mat \<Rightarrow> mat \<Rightarrow> mat" where
  "tensor_add a b = map2 (map2 (+)) a b"

definition forward_train ::
  "sipn \<Rightarrow> 't externals \<Rightarrow> bank \<Rightarrow> 't \<Rightarrow> mat \<Rightarrow> 't \<Rightarrow> (error + 't outputs) \<times> bank" where
  "forward_train M X b im_data gt_boxes im_info =
     (let net_conv = head X im_data;
          (pooled_feat, trans_feat, rpn_loss, label, bbox_info) =
             strpn_train X net_conv gt_boxes im_info;
          fc7 = fc7_of M X pooled_feat;
          cls_score = cls_score_net X fc7;
          bbox_pred = bbox_pred_net X fc7;
          reid_feat = func_normalize (reid_feat_net X fc7);
          (det_label, pid_label) = label;
          cls_loss = cross_entropy X cls_score det_label;
          bbox_loss = smooth_l1_loss X bbox_pred bbox_info;
          (r, b') = oim_loss (norm_zero X) (oim_xent X) reid_feat pid_label b
                      (length gt_boxes) (lut_momentum M);
          (rpn_cls_loss, rpn_box_loss) = rpn_loss
      in case r of
           Inl err \<Rightarrow> (Inl err, b')
         | Inr reid_loss \<Rightarrow>
             (Inr (Losses (rpn_cls_loss, rpn_box_loss, cls_loss, bbox_loss, reid_loss)), b'))"

definition denormalize :: "config_file \<Rightarrow> mat \<Rightarrow> error + mat" where
  "denormalize cfg bbox_pred =
     (case cfg of
        None \<Rightarrow> Inl IOError
      | Some config \<Rightarrow>
          (case config ''train_bbox_normalize_means'' of
             None \<Rightarrow> Inl (KeyError ''train_bbox_normalize_means'')
           | Some mean \<Rightarrow>
               (case config ''train_bbox_normalize_stds'' of
                  None \<Rightarrow> Inl (KeyError ''train_bbox_normalize_stds'')
                | Some std \<Rightarrow>
                    (case expand_as (mean @ mean) bbox_pred_dim bbox_pred of
                       Inl err \<Rightarrow> Inl err
                     | Inr means \<Rightarrow>
                         (case expand_as (std @ std) bbox_pred_dim bbox_pred of
                            Inl err \<Rightarrow> Inl err
                          | Inr stds \<Rightarrow>
                              Inr (tensor_add (tensor_mul bbox_pred stds) means))))))"

definition forward_gallery ::
  "sipn \<Rightarrow> 't externals \<Rightarrow> config_file \<Rightarrow> bank \<Rightarrow> 't \<Rightarrow> mat \<Rightarrow> 't
     \<Rightarrow> (error + 't outputs) \<times> bank" where
  "forward_gallery M X cfg b im_data gt_boxes im_info =
     (let net_conv = head X im_data;
          (rois, pooled_feat, trans_feat) = strpn_gallery X net_conv gt_boxes im_info;
          fc7 = fc7_of M X pooled_feat;
          cls_score = cls_score_net X fc7;
          bbox_pred = bbox_pred_net X fc7;
          reid_feat = func_normalize (reid_feat_net X fc7);
          cls_prob = softmax X cls_score
      in case denormalize cfg bbox_pred of
           Inl err \<Rightarrow> (Inl err, b)
         | Inr bbox_pred' \<Rightarrow> (Inr (Gallery cls_prob bbox_pred' rois reid_feat), b))"

definition forward_query ::
  "sipn \<Rightarrow> 't externals \<Rightarrow> bank \<Rightarrow> 't \<Rightarrow> mat \<Rightarrow> 't \<Rightarrow> string
     \<Rightarrow> (error + 't outputs) \<times> bank" where
  "forward_query M X b im_data gt_boxes im_info mode =
     (let net_conv = head X im_data;
          pooled_feat = strpn_query X net_conv gt_boxes im_info mode;
          fc7 = fc7_of M X pooled_feat;
          reid_feat = func_normalize (reid_feat_net X fc7)
      in (Inr (Query reid_feat), b))"

definition forward ::
  "sipn \<Rightarrow> 't externals \<Rightarrow> config_file \<Rightarrow> bank \<Rightarrow> 't \<Rightarrow> mat \<Rightarrow> 't \<Rightarrow> string
     \<Rightarrow> (error + 't outputs) \<times> bank" where
  "forward M X cfg b im_data gt_boxes im_info mode =
     (if is_train M then forward_train M X b im_data gt_boxes im_info
      else if mode = ''gallery'' then forward_gallery M X cfg b im_data gt_boxes im_info
      else if mode = ''query'' then forward_query M X b im_data gt_boxes im_info mode
      else (Inl (KeyError mode), b))"

section \<open>Well-formed banks and example collaborators\<close>

text \<open>
  A queue is well formed for dimension \<open>d\<close> when the cursor points into it and every
  row has \<open>d\<close> entries, as after \<^verbatim>\<open>SIPN.__init__\<close>.
\<close>

definition wf_queue :: "nat \<Rightarrow> bank \<Rightarrow> bool" where
  "wf_queue d b \<longleftrightarrow>
     cursor b < length (queue b) \<and> list_all (\<lambda>row. length row = d) (queue b)"

text \<open>
  A small model object and collaborators with fixed answers, on which the theorems below
  are evaluated: the proposal subsystem answers the identity labels \<open>pids\<close>, the
  identity head the rows \<open>feats\<close>, the box head the rows \<open>boxes\<close>. In the examples
  \<open>normalize\<close> leaves a vector of norm zero as it is.
\<close>

definition keep_zero :: "vec \<Rightarrow> vec" where
  "keep_zero v = v"

definition example_sipn :: "bool \<Rightarrow> sipn" where
  "example_sipn train =
     \<lparr>net_name = ''res50'', is_train = train, num_pid = 1, queue_size = 2,
      lut_momentum = 1 / 2, reid_feat_dim = 2\<rparr>"

definition example_externals :: "label list \<Rightarrow> mat \<Rightarrow> mat \<Rightarrow> nat externals" where
  "example_externals pids feats boxes =
     \<lparr>head = (\<lambda>x. x), tail = (\<lambda>x. x),
      strpn_train = (\<lambda>c gt info. (c, c, (1, 2), (c, pids), c)),
      strpn_gallery = (\<lambda>c gt info. (c, c, c)),
      strpn_query = (\<lambda>c gt info mode. c),
      view_flat = (\<lambda>x. x), spatial_mean = (\<lambda>x. x),
      cls_score_net = (\<lambda>x. [[0, 0]]),
      bbox_pred_net = (\<lambda>x. boxes),
      reid_feat_net = (\<lambda>x. feats),
      cross_entropy = (\<lambda>s l. 3),
      smooth_l1_loss = (\<lambda>p t. 4),
      oim_xent = (\<lambda>rows n. 5),
      norm_zero = keep_zero,
      softmax = (\<lambda>x. x)\<rparr>"

section \<open>Norms and normalisation\<close>

lemma sum_squares_nonneg: "0 \<le> sum_squares v"
  unfolding sum_squares_def by (induction v) simp_all

lemma l2norm_nonneg: "0 \<le> l2norm v"
  by (simp add: l2norm_def sum_squares_nonneg)

lemma sum_squares_div: "sum_squares (map (\<lambda>x. x / c) v) = sum_squares v / (c * c)"
  unfolding sum_squares_def by (induction v) (simp_all add: add_divide_distrib)

lemma l2norm_div: "l2norm (map (\<lambda>x. x / c) v) = l2norm v / \<bar>c\<bar>"
  unfolding l2norm_def sum_squares_div
  by (simp add: real_sqrt_divide)

lemma l2norm_zero_iff: "l2norm v = 0 \<longleftrightarrow> list_all (\<lambda>x. x = 0) v"
proof -
  have "sum_squares v = 0 \<longleftrightarrow> list_all (\<lambda>x. x = 0) v"
  proof (induction v)
    case Nil
    show ?case by (simp add: sum_squares_def)
  next
    case (Cons x v)
    have "0 \<le> sum_squares v" by (rule sum_squares_nonneg)
    then have "x * x + sum_squares v = 0 \<longleftrightarrow> x = 0 \<and> sum_squares v = 0"
      by (simp add: add_nonneg_eq_0_iff)
    with Cons show ?case by (simp add: sum_squares_def)
  qed
  then show ?thesis by (simp add: l2norm_def)
qed

lemma flt_max_bounds: "1 < flt_max" "eps * eps \<le> flt_max"
  by (simp_all add: flt_max_def eps_def)

lemma normalize_row_unit:
  assumes "eps \<le> l2norm v" and "sum_squares v \<le> flt_max"
  shows "l2norm (normalize_row v) = 1"
proof -
  have pos: "0 < eps" by (simp add: eps_def)
  with assms(1) have "max (l2norm v) eps = l2norm v" and "0 < l2norm v" by simp_all
  with assms(2) show ?thesis
    by (simp add: normalize_row_def l2norm_div)
qed

lemma normalize_row_small:
  assumes "l2norm v \<le> eps"
  shows "normalize_row v = map (\<lambda>x. x / eps) v" and "l2norm (normalize_row v) = l2norm v / eps"
proof -
  have pos: "0 < eps" by (simp add: eps_def)
  have "sum_squares v = l2norm v * l2norm v"
    by (simp add: l2norm_def sum_squares_nonneg)
  also have "\<dots> \<le> eps * eps"
    using assms l2norm_nonneg [of v] by (intro mult_mono) simp_all
  finally have "sum_squares v \<le> flt_max" using flt_max_bounds(2) by simp
  moreover from assms have "max (l2norm v) eps = eps" by simp
  ultimately show "normalize_row v = map (\<lambda>x. x / eps) v"
    by (simp add: normalize_row_def)
  with pos show "l2norm (normalize_row v) = l2norm v / eps"
    by (simp add: l2norm_div)
qed

lemma normalize_row_overflow:
  assumes "flt_max < sum_squares v"
  shows "normalize_row v = map (\<lambda>x. 0) v" and "l2norm (normalize_row v) = 0"
proof -
  from assms show eq: "normalize_row v = map (\<lambda>x. 0) v" by (simp add: normalize_row_def)
  show "l2norm (normalize_row v) = 0"
    unfolding eq l2norm_zero_iff by (simp add: list_all_iff)
qed

lemma length_normalize_row: "length (normalize_row v) = length v"
  by (simp add: normalize_row_def)


lemma normalize_spec_unit: "l2norm v = 1 \<Longrightarrow> normalize_spec nz v = v"
  by (simp add: normalize_spec_def map_idI)

lemma normalize_spec_fixed:
  "l2norm v = 1 \<or> l2norm v = 0 \<and> nz v = v \<Longrightarrow> normalize_spec nz v = v"
  by (auto simp: normalize_spec_def map_idI)

lemma length_blend: "length (blend m old e) = min (length old) (length e)"
  by (simp add: blend_def)

lemma blend_one: "length e = length old \<Longrightarrow> blend 1 old e = old"
  unfolding blend_def by (induction old e rule: list_induct2') simp_all


lemma l2norm_single: "l2norm [a] = \<bar>a\<bar>"
  by (simp add: l2norm_def sum_squares_def)

lemma l2norm_pair_zero: "l2norm [a, 0] = \<bar>a\<bar>"
  by (simp add: l2norm_def sum_squares_def)

lemma l2norm_zero_pair: "l2norm [0, a] = \<bar>a\<bar>"
  by (simp add: l2norm_def sum_squares_def)

lemma rotate_push:
  assumes "c < length q"
  shows "rotate ((c + 1) mod length q) (q[c := e]) = tl (rotate c q) @ [e]"
proof -
  have upd: "q[c := e] = take c q @ e # drop (Suc c) q"
    using assms by (simp add: upd_conv_take_nth_drop)
  have old: "rotate c q = drop c q @ take c q"
    using assms by (simp add: rotate_drop_take)
  have dn: "drop c q = q ! c # drop (Suc c) q"
    using assms by (simp add: Cons_nth_drop_Suc)
  have rhs: "tl (rotate c q) @ [e] = drop (Suc c) q @ take c q @ [e]"
    by (simp add: old dn)
  show ?thesis
  proof (cases "Suc c < length q")
    case True
    then have "rotate ((c + 1) mod length q) (q[c := e])
        = drop (Suc c) (q[c := e]) @ take (Suc c) (q[c := e])"
      by (simp add: rotate_drop_take)
    also have "\<dots> = drop (Suc c) q @ take c q @ [e]"
      using assms by (simp add: take_Suc_conv_app_nth)
    finally show ?thesis by (simp add: rhs)
  next
    case False
    with assms have eq: "Suc c = length q" by simp
    then have "rotate ((c + 1) mod length q) (q[c := e]) = q[c := e]" by simp
    also have "\<dots> = take c q @ [e]" using eq by (simp add: upd)
    finally show ?thesis using eq by (simp add: rhs)
  qed
qed

section \<open>The ring of the queue\<close>

lemma update_one_unlabeled:
  assumes "wf_queue d b" "length e = d"
  shows "update_one nz m b (Unlabeled, e) =
           Inr (b\<lparr>queue := (queue b)[cursor b := e],
                  cursor := (cursor b + 1) mod length (queue b)\<rparr>)"
  using assms by (simp add: wf_queue_def list_all_length)

lemma wf_queue_push:
  assumes "wf_queue d b" "length e = d"
  shows "wf_queue d (b\<lparr>queue := (queue b)[cursor b := e],
                  cursor := (cursor b + 1) mod length (queue b)\<rparr>)"
proof -
  from assms(1) have "0 < length (queue b)" by (auto simp: wf_queue_def)
  then have "(cursor b + 1) mod length (queue b) < length (queue b)" by simp
  with assms show ?thesis
    by (auto simp: wf_queue_def list_all_length nth_list_update)
qed

lemma update_unlabeled:
  assumes "wf_queue d b" "list_all (\<lambda>e. length e = d) es"
  shows "\<exists>b'. update nz m (map (Pair Unlabeled) es) b = (Inr (), b')
           \<and> lut b' = lut b
           \<and> length (queue b') = length (queue b)
           \<and> cursor b' = (cursor b + length es) mod length (queue b)
           \<and> rotate (cursor b') (queue b') = drop (length es) (rotate (cursor b) (queue b) @ es)"
  using assms
proof (induction es arbitrary: b)
  case Nil
  then show ?case by (simp add: wf_queue_def)
next
  case (Cons e es)
  let ?b1 = "b\<lparr>queue := (queue b)[cursor b := e],
                cursor := (cursor b + 1) mod length (queue b)\<rparr>"
  from Cons.prems have e: "length e = d" and es: "list_all (\<lambda>e. length e = d) es" by simp_all
  have step: "update_one nz m b (Unlabeled, e) = Inr ?b1"
    using Cons.prems(1) e by (rule update_one_unlabeled)
  have wf1: "wf_queue d ?b1" using Cons.prems(1) e by (rule wf_queue_push)
  from Cons.IH [OF wf1 es] obtain b' where
    run: "update nz m (map (Pair Unlabeled) es) ?b1 = (Inr (), b')"
    and l: "lut b' = lut ?b1"
    and n: "length (queue b') = length (queue ?b1)"
    and c: "cursor b' = (cursor ?b1 + length es) mod length (queue ?b1)"
    and r: "rotate (cursor b') (queue b') = drop (length es) (rotate (cursor ?b1) (queue ?b1) @ es)"
    by blast
  have cb: "cursor b < length (queue b)" using Cons.prems(1) by (simp add: wf_queue_def)
  have ne: "rotate (cursor b) (queue b) \<noteq> []" using cb by auto
  have r1: "rotate (cursor ?b1) (queue ?b1) = tl (rotate (cursor b) (queue b)) @ [e]"
    using rotate_push [OF cb] by simp
  obtain a R where R: "rotate (cursor b) (queue b) = a # R"
    using ne by (cases "rotate (cursor b) (queue b)") auto
  have "drop (length es) (rotate (cursor ?b1) (queue ?b1) @ es)
      = drop (length es) ((R @ [e]) @ es)"
    by (simp only: r1 R list.sel)
  also have "\<dots> = drop (length (e # es)) (rotate (cursor b) (queue b) @ e # es)"
    by (simp only: R) simp
  finally have "drop (length es) (rotate (cursor ?b1) (queue ?b1) @ es)
      = drop (length (e # es)) (rotate (cursor b) (queue b) @ e # es)" .
  moreover have "(cursor ?b1 + length es) mod length (queue ?b1)
      = (cursor b + length (e # es)) mod length (queue b)"
    by (simp add: mod_add_left_eq)
  ultimately show ?case
    using step run l n c r by simp
qed


section \<open>The model as constructed\<close>

lemma sipn_init_well_formed:
  assumes "sipn_init net dataset_name train = Inr (M, b)"
  shows "wf_queue 256 b \<and> length (lut b) = num_pid M \<and> length (queue b) = queue_size M
     \<and> list_all (\<lambda>r. length r = 256 \<and> list_all (\<lambda>x. x = 0) r) (lut b)
     \<and> lut_momentum M = 1 / 2 \<and> is_train M = train"
  using assms
  by (auto simp: sipn_init_def dataset_sizes_def zeros_def wf_queue_def list_all_iff
      split: if_splits)

section \<open>Frame and error lemmas of the update and of forward\<close>

lemma update_skips_background:
  "update nz m ss b = update nz m (filter (\<lambda>s. fst s \<noteq> Background) ss) b"
proof (induction ss arbitrary: b)
  case Nil
  show ?case by simp
next
  case (Cons s ss)
  obtain l e where s: "s = (l, e)" by (cases s)
  show ?case
  proof (cases "l = Background")
    case True
    with s Cons.IH show ?thesis by simp
  next
    case False
    with s Cons.IH show ?thesis by (simp split: sum.splits)
  qed
qed

lemma update_all_background:
  "list_all (\<lambda>s. fst s = Background) ss \<Longrightarrow> update nz m ss b = (Inr (), b)"
  by (induction ss) auto

lemma update_no_key_error: "fst (update nz m ss b) \<noteq> Inl (KeyError s)"
proof (induction ss arbitrary: b)
  case Nil
  show ?case by simp
next
  case (Cons x ss)
  obtain l e where x: "x = (l, e)" by (cases x)
  show ?case using Cons.IH unfolding x
    by (cases l) (auto split: sum.splits)
qed

lemma oim_loss_no_key_error: "fst (oim_loss nz xent E ls b n m) \<noteq> Inl (KeyError s)"
proof (cases "update nz m (zip ls E) b")
  case (Pair r b')
  with update_no_key_error [of nz m "zip ls E" b s] show ?thesis
    by (cases r) (auto simp: oim_loss_def Let_def)
qed

lemma snd_forward_gallery: "snd (forward_gallery M X cfg b im gt info) = b"
  by (simp add: forward_gallery_def Let_def split: prod.splits sum.splits)

lemma snd_forward_query: "snd (forward_query M X b im gt info mode) = b"
  by (simp add: forward_query_def Let_def)

lemma forward_train_eq:
  assumes "strpn_train X (head X im) gt info =
             (pooled, trans_feat, (rpn_cls_loss, rpn_box_loss), (det_label, pid_label), bbox_info)"
    and "oim_loss (norm_zero X) (oim_xent X) (func_normalize (reid_feat_net X (fc7_of M X pooled))) pid_label b
           (length gt) (lut_momentum M) = (r, b')"
  shows "forward_train M X b im gt info =
          (case r of
             Inl err \<Rightarrow> (Inl err, b')
           | Inr reid_loss \<Rightarrow>
               (Inr (Losses (rpn_cls_loss, rpn_box_loss,
                       cross_entropy X (cls_score_net X (fc7_of M X pooled)) det_label,
                       smooth_l1_loss X (bbox_pred_net X (fc7_of M X pooled)) bbox_info,
                       reid_loss)), b'))"
  using assms by (simp add: forward_train_def Let_def)

lemma oim_loss_bank:
  "length E = length ls \<Longrightarrow> snd (oim_loss nz xent E ls b n m) = snd (update nz m (zip ls E) b)"
  by (simp add: oim_loss_def Let_def split: prod.splits sum.splits)

lemma forward_train_bank:
  assumes "strpn_train X (head X im) gt info =
             (pooled, trans_feat, (rpn_cls_loss, rpn_box_loss), (det_label, pid_label), bbox_info)"
  shows "snd (forward_train M X b im gt info) =
           snd (oim_loss (norm_zero X) (oim_xent X) (func_normalize (reid_feat_net X (fc7_of M X pooled)))
                  pid_label b (length gt) (lut_momentum M))"
proof -
  obtain r b' where oi: "oim_loss (norm_zero X) (oim_xent X)
      (func_normalize (reid_feat_net X (fc7_of M X pooled))) pid_label b (length gt)
      (lut_momentum M) = (r, b')"
    by (metis prod.exhaust)
  show ?thesis
    unfolding forward_train_eq [OF assms oi] oi by (cases r) simp_all
qed

lemma map2_const_right: "map2 f xs (map (\<lambda>x. c) xs) = map (\<lambda>x. f x c) xs"
  by (induction xs) simp_all

lemma map2_maps: "map2 f (map g xs) (map h xs) = map (\<lambda>x. f (g x) (h x)) xs"
  by (induction xs) simp_all

lemma map2_map2_fuse:
  "length r = length u \<Longrightarrow> length u = length v \<Longrightarrow>
   map2 (+) (map2 (*) r u) v = map2 (\<lambda>p (s, m). p * s + m) r (zip u v)"
  for r :: vec
  by (induction r u v rule: list_induct3) simp_all

lemma map2_scale_shift_id:
  "length r = length u \<Longrightarrow> length u = length v \<Longrightarrow> list_all (\<lambda>s. s = 1) u \<Longrightarrow> list_all (\<lambda>m. m = 0) v \<Longrightarrow>
   map2 (\<lambda>p (s, m). p * s + m) r (zip u v) = r"
  for r :: vec
  by (induction r u v rule: list_induct3) simp_all

lemma forward_gallery_eq:
  assumes "strpn_gallery X (head X im) gt info = (rois, pooled, trans_feat)"
  shows "forward_gallery M X cfg b im gt info =
          (case denormalize cfg (bbox_pred_net X (fc7_of M X pooled)) of
             Inl err \<Rightarrow> (Inl err, b)
           | Inr boxes \<Rightarrow>
               (Inr (Gallery (softmax X (cls_score_net X (fc7_of M X pooled))) boxes rois
                      (func_normalize (reid_feat_net X (fc7_of M X pooled)))), b))"
  using assms by (simp add: forward_gallery_def Let_def)

lemma forward_query_eq:
  "forward_query M X b im gt info mode =
     (Inr (Query (func_normalize
        (reid_feat_net X (fc7_of M X (strpn_query X (head X im) gt info mode))))), b)"
  by (simp add: forward_query_def Let_def)

lemma denormalize_rows:
  assumes "config ''train_bbox_normalize_means'' = Some mean"
    and "config ''train_bbox_normalize_stds'' = Some std"
    and "length mean = 4" and "length std = 4"
    and "list_all (\<lambda>row. length row = 8) raw"
  shows "denormalize (Some config) raw =
           Inr (map (\<lambda>row. map2 (\<lambda>p (s, m). p * s + m) row (zip (std @ std) (mean @ mean))) raw)"
proof -
  have e1: "expand_as (mean @ mean) bbox_pred_dim raw = Inr (map (\<lambda>row. mean @ mean) raw)"
    using assms(3) by (simp add: expand_as_def bbox_pred_dim_def)
  have e2: "expand_as (std @ std) bbox_pred_dim raw = Inr (map (\<lambda>row. std @ std) raw)"
    using assms(4) by (simp add: expand_as_def bbox_pred_dim_def)
  have "tensor_add (tensor_mul raw (map (\<lambda>row. std @ std) raw)) (map (\<lambda>row. mean @ mean) raw)
      = map (\<lambda>row. map2 (+) (map2 (*) row (std @ std)) (mean @ mean)) raw"
    by (simp only: tensor_add_def tensor_mul_def map2_const_right map2_maps)
  also have "\<dots> = map (\<lambda>row. map2 (\<lambda>p (s, m). p * s + m) row (zip (std @ std) (mean @ mean))) raw"
  proof (rule map_cong [OF refl])
    fix row assume "row \<in> set raw"
    with assms(5) have "length row = 8" by (simp add: list_all_iff)
    with assms(3,4) show "map2 (+) (map2 (*) row (std @ std)) (mean @ mean)
        = map2 (\<lambda>p (s, m). p * s + m) row (zip (std @ std) (mean @ mean))"
      by (intro map2_map2_fuse) simp_all
  qed
  finally show ?thesis
    using assms(1,2) by (simp add: denormalize_def e1 e2)
qed

lemma denormalize_identity:
  assumes "config ''train_bbox_normalize_means'' = Some [0, 0, 0, 0]"
    and "config ''train_bbox_normalize_stds'' = Some [1, 1, 1, 1]"
    and "list_all (\<lambda>row. length row = 8) raw"
  shows "denormalize (Some config) raw = Inr raw"
proof -
  have "map (\<lambda>row. map2 (\<lambda>p (s, m). p * s + m) row
          (zip ([1, 1, 1, 1] @ [1, 1, 1, 1]) ([0, 0, 0, 0] @ [0, 0, 0, 0]))) raw = raw"
  proof (rule map_idI)
    fix row :: vec assume "row \<in> set raw"
    with assms(3) have "length row = 8" by (simp add: list_all_iff)
    then have "length row = length ([1, 1, 1, 1] @ [1, 1, 1, 1 :: real])" by simp
    then show "map2 (\<lambda>p (s, m). p * s + m) row
          (zip ([1, 1, 1, 1] @ [1, 1, 1, 1]) ([0, 0, 0, 0] @ [0, 0, 0, 0])) = row"
      by (rule map2_scale_shift_id) simp_all
  qed
  with denormalize_rows [OF assms(1,2) _ _ assms(3)] show ?thesis by simp
qed

lemma denormalize_shape_error:
  assumes "config ''train_bbox_normalize_means'' = Some mean"
    and "config ''train_bbox_normalize_stds'' = Some std"
    and "length mean \<noteq> 4 \<or> length std \<noteq> 4"
  shows "denormalize (Some config) raw = Inl ShapeError"
proof -
  have odd: "length (v @ v) \<noteq> 1" for v :: vec by simp presburger
  have bad: "expand_as (v @ v) bbox_pred_dim raw = Inl ShapeError" if "length v \<noteq> 4" for v
    using that odd [of v] by (simp add: expand_as_def bbox_pred_dim_def)
  have good: "\<exists>t. expand_as (v @ v) bbox_pred_dim raw = Inr t" if "length v = 4" for v :: vec
    using that by (simp add: expand_as_def bbox_pred_dim_def)
  show ?thesis
  proof (cases "length mean = 4")
    case False
    with assms(1,2) bad [of mean] show ?thesis by (simp add: denormalize_def)
  next
    case True
    with assms(3) have "length std \<noteq> 4" by simp
    with assms(1,2) bad [of std] good [OF True] show ?thesis
      by (auto simp: denormalize_def)
  qed
qed

lemma update_one_known:
  assumes "i < length (lut b)" and "length e = length (lut b ! i)"
  shows "update_one nz m b (Known i, e) =
           Inr (b\<lparr>lut := (lut b)[i := normalize_spec nz (blend m (lut b ! i) e)]\<rparr>)"
  using assms by simp




lemma update_momentum_one_step:
  assumes "list_all (\<lambda>r. l2norm r = 1 \<or> l2norm r = 0 \<and> nz r = r) (lut b)"
    and "update_one nz 1 b s = Inr b'"
  shows "lut b' = lut b" and "fst s \<noteq> Unlabeled \<Longrightarrow> b' = b"
proof -
  obtain l e where s: "s = (l, e)" by (cases s)
  have "lut b' = lut b \<and> (l \<noteq> Unlabeled \<longrightarrow> b' = b)"
  proof (cases l)
    case Background
    with s assms(2) show ?thesis by simp
  next
    case (Known i)
    with s assms(2) have i: "i < length (lut b)" and d: "length e = length (lut b ! i)"
      by (auto split: if_splits)
    from d have "blend 1 (lut b ! i) e = lut b ! i" by (simp add: blend_one)
    moreover from i assms(1)
    have "l2norm (lut b ! i) = 1 \<or> l2norm (lut b ! i) = 0 \<and> nz (lut b ! i) = lut b ! i"
      by (simp add: list_all_length)
    then have "normalize_spec nz (lut b ! i) = lut b ! i" by (rule normalize_spec_fixed)
    ultimately have "b' = b" using i d s Known assms(2) by simp
    then show ?thesis by simp
  next
    case Unlabeled
    with s assms(2) show ?thesis by (auto split: if_splits)
  qed
  with s show "lut b' = lut b" and "fst s \<noteq> Unlabeled \<Longrightarrow> b' = b" by simp_all
qed

lemma update_momentum_one:
  assumes "list_all (\<lambda>r. l2norm r = 1 \<or> l2norm r = 0 \<and> nz r = r) (lut b)"
  shows "lut (snd (update nz 1 ss b)) = lut b"
    and "list_all (\<lambda>s. fst s \<noteq> Unlabeled) ss \<Longrightarrow> snd (update nz 1 ss b) = b"
proof -
  have "lut (snd (update nz 1 ss b)) = lut b
      \<and> (list_all (\<lambda>s. fst s \<noteq> Unlabeled) ss \<longrightarrow> snd (update nz 1 ss b) = b)"
    using assms
  proof (induction ss arbitrary: b)
    case Nil
    show ?case by simp
  next
    case (Cons s ss)
    show ?case
    proof (cases "update_one nz 1 b s")
      case (Inl err)
      then show ?thesis by simp
    next
      case (Inr b')
      note step = update_momentum_one_step [OF Cons.prems Inr]
      from step(1) Cons.prems
      have "list_all (\<lambda>r. l2norm r = 1 \<or> l2norm r = 0 \<and> nz r = r) (lut b')" by simp
      from Cons.IH [OF this] step Inr show ?thesis by auto
    qed
  qed
  then show "lut (snd (update nz 1 ss b)) = lut b"
    and "list_all (\<lambda>s. fst s \<noteq> Unlabeled) ss \<Longrightarrow> snd (update nz 1 ss b) = b"
    by simp_all
qed

lemma fold_update_momentum_one:
  assumes "list_all (\<lambda>r. l2norm r = 1 \<or> l2norm r = 0 \<and> nz r = r) (lut b)"
  shows "lut (fold (\<lambda>ss b. snd (update nz 1 ss b)) batches b) = lut b"
    and "list_all (list_all (\<lambda>s. fst s \<noteq> Unlabeled)) batches \<Longrightarrow>
           fold (\<lambda>ss b. snd (update nz 1 ss b)) batches b = b"
proof -
  have "lut (fold (\<lambda>ss b. snd (update nz 1 ss b)) batches b) = lut b
      \<and> (list_all (list_all (\<lambda>s. fst s \<noteq> Unlabeled)) batches \<longrightarrow>
           fold (\<lambda>ss b. snd (update nz 1 ss b)) batches b = b)"
    using assms
  proof (induction batches arbitrary: b)
    case Nil
    show ?case by simp
  next
    case (Cons ss batches)
    note one = update_momentum_one [OF Cons.prems, of ss]
    from one(1) Cons.prems
    have "list_all (\<lambda>r. l2norm r = 1 \<or> l2norm r = 0 \<and> nz r = r) (lut (snd (update nz 1 ss b)))"
      by simp
    from Cons.IH [OF this] one show ?case by auto
  qed
  then show "lut (fold (\<lambda>ss b. snd (update nz 1 ss b)) batches b) = lut b"
    and "list_all (list_all (\<lambda>s. fst s \<noteq> Unlabeled)) batches \<Longrightarrow>
           fold (\<lambda>ss b. snd (update nz 1 ss b)) batches b = b"
    by simp_all
qed

lemmas example_simps =
  forward_def forward_train_def forward_gallery_def forward_query_def
  example_sipn_def example_externals_def keep_zero_def fc7_of_def oim_loss_def
  similarity_logits_def func_normalize_def normalize_row_def normalize_spec_def
  sum_squares_def flt_max_def l2norm_pair_zero l2norm_zero_pair l2norm_single blend_def eps_def
  denormalize_def expand_as_def bbox_pred_dim_def tensor_mul_def tensor_add_def wf_queue_def
  Let_def

section \<open>The properties of the specification\<close>



text \<open>
  C2. After \<open>queue_size + k\<close> unlabeled-person samples with \<open>k < queue_size\<close>, the update
  has succeeded, the lookup table is unchanged, the cursor has advanced by \<open>k\<close> modulo the
  queue size, and the queue read from the cursor onwards (oldest entry first) is exactly
  the last \<open>queue_size\<close> embeddings pushed, in the order they were pushed: the slot
  \<open>(cursor + j) mod queue_size\<close> holds embedding number \<open>k + j\<close>.
\<close>

theorem queue_fifo_ring:
  assumes "wf_queue d b" and "list_all (\<lambda>e. length e = d) es"
    and "length es = length (queue b) + k" and "k < length (queue b)"
  shows "\<exists>b'. update nz m (map (Pair Unlabeled) es) b = (Inr (), b')
           \<and> lut b' = lut b
           \<and> length (queue b') = length (queue b)
           \<and> cursor b' = (cursor b + k) mod length (queue b)
           \<and> rotate (cursor b') (queue b') = drop k es
           \<and> set (queue b') = set (drop k es)
           \<and> (\<forall>j<length (queue b).
                 queue b' ! ((cursor b' + j) mod length (queue b)) = es ! (k + j))"
proof -
  from update_unlabeled [OF assms(1,2), of nz m] obtain b' where
    run: "update nz m (map (Pair Unlabeled) es) b = (Inr (), b')"
    and l: "lut b' = lut b"
    and n: "length (queue b') = length (queue b)"
    and c: "cursor b' = (cursor b + length es) mod length (queue b)"
    and r: "rotate (cursor b') (queue b') = drop (length es) (rotate (cursor b) (queue b) @ es)"
    by blast
  have "cursor b + length es = (cursor b + k) + length (queue b)"
    using assms(3) by simp
  then have c': "cursor b' = (cursor b + k) mod length (queue b)"
    unfolding c by (simp only: mod_add_self2)
  have r': "rotate (cursor b') (queue b') = drop k es"
    unfolding r using assms(3) by simp
  have s': "set (queue b') = set (drop k es)"
    using arg_cong [OF r', of set] by simp
  have i': "queue b' ! ((cursor b' + j) mod length (queue b)) = es ! (k + j)"
    if "j < length (queue b)" for j
  proof -
    from that n have "rotate (cursor b') (queue b') ! j
        = queue b' ! ((cursor b' + j) mod length (queue b'))"
      by (simp add: nth_rotate)
    moreover have "drop k es ! j = es ! (k + j)"
      using that assms(3) by simp
    ultimately show ?thesis using r' n by simp
  qed
  from run l n c' r' s' i' show ?thesis by blast
qed

theorem queue_fifo_ring_witness:
  "wf_queue 1 \<lparr>lut = [], queue = [[0], [0]], cursor = 0\<rparr>
   \<and> update keep_zero (1 / 2) [(Unlabeled, [1]), (Unlabeled, [2]), (Unlabeled, [3])]
         \<lparr>lut = [], queue = [[0], [0]], cursor = 0\<rparr>
       = (Inr (), \<lparr>lut = [], queue = [[3], [2]], cursor = 1\<rparr>)
   \<and> rotate 1 [[3], [2]] = drop 1 [[1], [2], [3 :: real]]"
  using queue_fifo_ring [of 1 "\<lparr>lut = [], queue = [[0], [0]], cursor = 0\<rparr>"
      "[[1], [2], [3]]" 1 keep_zero "1 / 2"]
  by (simp add: example_simps)

text \<open>
  C3. A background sample leaves the bank as it is: the update of one such sample returns
  the bank unchanged, a batch behaves as the batch without its background samples, and a
  batch of background samples only returns the bank it was given. A forward call of a
  model that was not constructed for training returns the bank it was given, whatever the
  mode.
\<close>

theorem bank_frame:
  "update_one nz m b (Background, e) = Inr b
   \<and> update nz m ss b = update nz m (filter (\<lambda>s. fst s \<noteq> Background) ss) b
   \<and> (list_all (\<lambda>s. fst s = Background) ss \<longrightarrow> snd (update nz m ss b) = b)
   \<and> (\<not> is_train M \<longrightarrow> snd (forward M X cfg b im gt info mode) = b)"
  using update_skips_background [of nz m ss b] update_all_background [of ss nz m b]
  by (simp add: forward_def snd_forward_gallery snd_forward_query)

theorem bank_frame_witness:
  "list_all (\<lambda>s. fst s = Background) [(Background, [1, 0])]
   \<and> \<not> is_train (example_sipn False)
   \<and> snd (update keep_zero (1 / 2) [(Background, [1, 0])]
             \<lparr>lut = [[0, 0]], queue = [[0, 0]], cursor = 0\<rparr>)
       = \<lparr>lut = [[0, 0]], queue = [[0, 0]], cursor = 0\<rparr>
   \<and> snd (forward (example_sipn False) (example_externals [] [[1, 0]] []) None
             \<lparr>lut = [[0, 0]], queue = [[0, 0]], cursor = 0\<rparr> 0 [] 0 ''query'')
       = \<lparr>lut = [[0, 0]], queue = [[0, 0]], cursor = 0\<rparr>"
  using bank_frame [of keep_zero "1 / 2" "\<lparr>lut = [[0, 0]], queue = [[0, 0]], cursor = 0\<rparr>" "[1, 0]"
      "[(Background, [1, 0])]" "example_sipn False" "example_externals [] [[1, 0]] []"
      None 0 "[]" 0 "''query''"]
  by (simp add: example_sipn_def)

text \<open>
  C4. A training-mode forward call returns the five losses as one tuple, in the order
  rpn classification loss, rpn box loss, detection classification loss, box regression
  loss, identity loss, each component being the value its collaborator computed and none
  of them a sum; when the identity loss fails, its error is what the call raises.
\<close>

theorem training_returns_five_losses:
  assumes "is_train M"
    and "strpn_train X (head X im) gt info =
           (pooled, trans_feat, (rpn_cls_loss, rpn_box_loss), (det_label, pid_label), bbox_info)"
    and "fc7 = fc7_of M X pooled"
    and "oim_loss (norm_zero X) (oim_xent X) (func_normalize (reid_feat_net X fc7)) pid_label b
           (length gt) (lut_momentum M) = (r, b')"
  shows "forward M X cfg b im gt info mode =
          (case r of
             Inl err \<Rightarrow> (Inl err, b')
           | Inr reid_loss \<Rightarrow>
               (Inr (Losses (rpn_cls_loss, rpn_box_loss,
                       cross_entropy X (cls_score_net X fc7) det_label,
                       smooth_l1_loss X (bbox_pred_net X fc7) bbox_info,
                       reid_loss)), b'))"
  using assms(1) forward_train_eq [OF assms(2) assms(4) [unfolded assms(3)]]
  unfolding assms(3) by (simp add: forward_def)

theorem training_returns_five_losses_witness:
  "is_train (example_sipn True)
   \<and> forward (example_sipn True) (example_externals [Known 0] [[1, 0]] []) None
        \<lparr>lut = [[0, 0]], queue = [[0, 0]], cursor = 0\<rparr> 0 [[0]] 0 ''gallery''
       = (Inr (Losses (1, 2, 3, 4, 5)), \<lparr>lut = [[1, 0]], queue = [[0, 0]], cursor = 0\<rparr>)"
proof -
  let ?X = "example_externals [Known 0] [[1, 0]] []"
  have h1: "is_train (example_sipn True)" by (simp add: example_sipn_def)
  have h2: "strpn_train ?X (head ?X 0) [[0]] 0 = (0, 0, (1, 2), (0, [Known 0]), 0)"
    by (simp add: example_externals_def)
  have h3: "(0 :: nat) = fc7_of (example_sipn True) ?X 0"
    by (simp add: example_simps)
  have h4: "oim_loss (norm_zero ?X) (oim_xent ?X) (func_normalize (reid_feat_net ?X 0)) [Known 0]
              \<lparr>lut = [[0, 0]], queue = [[0, 0]], cursor = 0\<rparr> (length [[0 :: real]])
              (lut_momentum (example_sipn True))
            = (Inr 5, \<lparr>lut = [[1, 0]], queue = [[0, 0]], cursor = 0\<rparr>)"
    by (simp add: example_simps)
  show ?thesis
    using h1 training_returns_five_losses [OF h1 h2 h3 h4, of None "''gallery''"]
    by (simp add: example_externals_def)
qed

text \<open>
  C5. On a model constructed with \<open>is_train = False\<close>, a mode other than \<open>gallery\<close> and
  \<open>query\<close> makes forward raise \<open>KeyError mode\<close>; the bank is the one it was given, and the
  result depends on no collaborator, on no input tensor and not on the configuration
  file, so nothing was computed on the way.
\<close>

theorem invalid_mode_is_fatal:
  assumes "\<not> is_train M" and "mode \<noteq> ''gallery''" and "mode \<noteq> ''query''"
  shows "forward M X cfg b im gt info mode = (Inl (KeyError mode), b)"
  using assms by (simp add: forward_def)

theorem invalid_mode_is_fatal_witness:
  "\<not> is_train (example_sipn False)
   \<and> forward (example_sipn False) (example_externals [] [[1, 0]] []) None
        \<lparr>lut = [[0, 0]], queue = [[0, 0]], cursor = 0\<rparr> 0 [] 0 ''banana''
       = (Inl (KeyError ''banana''), \<lparr>lut = [[0, 0]], queue = [[0, 0]], cursor = 0\<rparr>)"
proof -
  have h: "\<not> is_train (example_sipn False)" by (simp add: example_sipn_def)
  show ?thesis
    using h invalid_mode_is_fatal [OF h, of "''banana''"] by simp
qed

text \<open>
  C6, in the form that holds. In training, gallery and query mode the rows that the
  identity head returns pass through \<open>func.normalize\<close> inside forward before they are given
  to the identity loss (which compares them with the bank and writes them into it) or
  returned. That normalisation divides a row by the larger of its L2 norm and \<open>eps\<close>, in
  32-bit floats: a row of norm at least \<open>eps\<close> whose sum of squares does not overflow
  gets unit norm, a row of smaller norm is divided by \<open>eps\<close>, and a row whose sum of
  squares overflows becomes zero.
\<close>

theorem embedding_normalized_in_every_mode:
  assumes "strpn_train X (head X im) gt info =
             (pooled_t, trans_t, (rpn_cls_loss, rpn_box_loss), (det_label, pid_label), bbox_info)"
    and "strpn_gallery X (head X im) gt info = (rois, pooled_g, trans_g)"
    and "pooled_q = strpn_query X (head X im) gt info mode"
  shows "(is_train M \<longrightarrow>
            forward M X cfg b im gt info mode =
              (case oim_loss (norm_zero X) (oim_xent X)
                      (map normalize_row (reid_feat_net X (fc7_of M X pooled_t)))
                      pid_label b (length gt) (lut_momentum M) of
                 (Inl err, b') \<Rightarrow> (Inl err, b')
               | (Inr reid_loss, b') \<Rightarrow>
                   (Inr (Losses (rpn_cls_loss, rpn_box_loss,
                           cross_entropy X (cls_score_net X (fc7_of M X pooled_t)) det_label,
                           smooth_l1_loss X (bbox_pred_net X (fc7_of M X pooled_t)) bbox_info,
                           reid_loss)), b')))
     \<and> (\<not> is_train M \<and> mode = ''gallery'' \<longrightarrow>
            forward M X cfg b im gt info mode =
              (case denormalize cfg (bbox_pred_net X (fc7_of M X pooled_g)) of
                 Inl err \<Rightarrow> (Inl err, b)
               | Inr boxes \<Rightarrow>
                   (Inr (Gallery (softmax X (cls_score_net X (fc7_of M X pooled_g))) boxes rois
                          (map normalize_row (reid_feat_net X (fc7_of M X pooled_g)))), b)))
     \<and> (\<not> is_train M \<and> mode = ''query'' \<longrightarrow>
            forward M X cfg b im gt info mode =
              (Inr (Query (map normalize_row (reid_feat_net X (fc7_of M X pooled_q)))), b))
     \<and> (\<forall>v. eps \<le> l2norm v \<and> sum_squares v \<le> flt_max \<longrightarrow> l2norm (normalize_row v) = 1)
     \<and> (\<forall>v. l2norm v \<le> eps \<longrightarrow> normalize_row v = map (\<lambda>x. x / eps) v)
     \<and> (\<forall>v. flt_max < sum_squares v \<longrightarrow> normalize_row v = map (\<lambda>x. 0) v)"
proof (intro conjI impI allI)
  assume "is_train M"
  obtain r b' where oi: "oim_loss (norm_zero X) (oim_xent X)
      (func_normalize (reid_feat_net X (fc7_of M X pooled_t))) pid_label b (length gt)
      (lut_momentum M) = (r, b')"
    by (metis prod.exhaust)
  from \<open>is_train M\<close> forward_train_eq [OF assms(1) oi] oi
  show "forward M X cfg b im gt info mode =
              (case oim_loss (norm_zero X) (oim_xent X)
                      (map normalize_row (reid_feat_net X (fc7_of M X pooled_t)))
                      pid_label b (length gt) (lut_momentum M) of
                 (Inl err, b') \<Rightarrow> (Inl err, b')
               | (Inr reid_loss, b') \<Rightarrow>
                   (Inr (Losses (rpn_cls_loss, rpn_box_loss,
                           cross_entropy X (cls_score_net X (fc7_of M X pooled_t)) det_label,
                           smooth_l1_loss X (bbox_pred_net X (fc7_of M X pooled_t)) bbox_info,
                           reid_loss)), b'))"
    by (cases r) (simp_all add: forward_def func_normalize_def)
next
  assume "\<not> is_train M \<and> mode = ''gallery''"
  with forward_gallery_eq [OF assms(2), of M cfg b]
  show "forward M X cfg b im gt info mode =
              (case denormalize cfg (bbox_pred_net X (fc7_of M X pooled_g)) of
                 Inl err \<Rightarrow> (Inl err, b)
               | Inr boxes \<Rightarrow>
                   (Inr (Gallery (softmax X (cls_score_net X (fc7_of M X pooled_g))) boxes rois
                          (map normalize_row (reid_feat_net X (fc7_of M X pooled_g)))), b))"
    by (simp add: forward_def func_normalize_def split: sum.splits)
next
  assume "\<not> is_train M \<and> mode = ''query''"
  then show "forward M X cfg b im gt info mode =
              (Inr (Query (map normalize_row (reid_feat_net X (fc7_of M X pooled_q)))), b)"
    unfolding assms(3) by (simp add: forward_def forward_query_eq func_normalize_def)
next
  fix v assume "eps \<le> l2norm v \<and> sum_squares v \<le> flt_max"
  then show "l2norm (normalize_row v) = 1" by (simp add: normalize_row_unit)
next
  fix v assume "l2norm v \<le> eps"
  then show "normalize_row v = map (\<lambda>x. x / eps) v" by (rule normalize_row_small)
next
  fix v assume "flt_max < sum_squares v"
  then show "normalize_row v = map (\<lambda>x. 0) v" by (rule normalize_row_overflow)
qed

theorem embedding_normalized_in_every_mode_witness:
  "snd (forward (example_sipn True) (example_externals [Unlabeled] [[2, 0]] []) None
          \<lparr>lut = [[0, 0]], queue = [[0, 0], [0, 0]], cursor = 0\<rparr> 0 [] 0 ''gallery'')
     = \<lparr>lut = [[0, 0]], queue = [[1, 0], [0, 0]], cursor = 1\<rparr>
   \<and> fst (forward (example_sipn False)
          (example_externals [] [[2, 0]] [[1, 2, 3, 4, 5, 6, 7, 8]])
          (Some [''train_bbox_normalize_means'' \<mapsto> [0, 0, 0, 0],
                 ''train_bbox_normalize_stds'' \<mapsto> [1, 1, 1, 1]])
          \<lparr>lut = [[0, 0]], queue = [[0, 0], [0, 0]], cursor = 0\<rparr> 0 [] 0 ''gallery'')
     = Inr (Gallery [[0, 0]] [[1, 2, 3, 4, 5, 6, 7, 8]] 0 [[1, 0]])
   \<and> fst (forward (example_sipn False) (example_externals [] [[2, 0]] []) None
          \<lparr>lut = [[0, 0]], queue = [[0, 0], [0, 0]], cursor = 0\<rparr> 0 [] 0 ''query'')
     = Inr (Query [[1, 0]])
   \<and> eps \<le> l2norm [2, 0] \<and> sum_squares [2, 0] \<le> flt_max
   \<and> l2norm (normalize_row [2, 0]) = 1"
proof -
  let ?b = "\<lparr>lut = [[0, 0]], queue = [[0, 0], [0, 0]], cursor = 0\<rparr>"
  let ?cfg = "Some [''train_bbox_normalize_means'' \<mapsto> [0, 0, 0, 0],
                    ''train_bbox_normalize_stds'' \<mapsto> [1, 1, 1, 1 :: real]]"
  let ?Xt = "example_externals [Unlabeled] [[2, 0]] []"
  let ?Xg = "example_externals [] [[2, 0]] [[1, 2, 3, 4, 5, 6, 7, 8]]"
  let ?Xq = "example_externals [] [[2, 0]] []"
  have t: "strpn_train ?Xt (head ?Xt 0) [] 0 = (0, 0, (1, 2), (0, [Unlabeled]), 0)"
    and g: "strpn_gallery ?Xt (head ?Xt 0) [] 0 = (0, 0, 0)"
    and tg: "strpn_train ?Xg (head ?Xg 0) [] 0 = (0, 0, (1, 2), (0, []), 0)"
    and gg: "strpn_gallery ?Xg (head ?Xg 0) [] 0 = (0, 0, 0)"
    and tq: "strpn_train ?Xq (head ?Xq 0) [] 0 = (0, 0, (1, 2), (0, []), 0)"
    and gq: "strpn_gallery ?Xq (head ?Xq 0) [] 0 = (0, 0, 0)"
    by (simp_all add: example_externals_def)
  have n: "eps \<le> l2norm [2, 0] \<and> sum_squares [2, 0] \<le> flt_max"
    by (simp add: l2norm_pair_zero eps_def sum_squares_def flt_max_def)
  show ?thesis
    using n
      embedding_normalized_in_every_mode [OF t g refl, of "example_sipn True" None ?b]
      embedding_normalized_in_every_mode [OF tg gg refl, of "example_sipn False" ?cfg ?b
        "''gallery''"]
      embedding_normalized_in_every_mode [OF tq gq refl, of "example_sipn False" None ?b
        "''query''"]
    by (simp add: example_simps)
qed

text \<open>
  A nonzero row does not always get unit norm: query mode returns the row
  \<open>[1 / 10 ^ 13, 0]\<close> of the identity head as \<open>[1 / 10, 0]\<close> and the row \<open>[10 ^ 20, 0]\<close>
  as \<open>[0, 0]\<close>.
\<close>

theorem embedding_normalized_in_every_mode_counterexample:
  "fst (forward (example_sipn False)
          (example_externals [] [[1 / 10 ^ 13, 0], [10 ^ 20, 0]] []) None
          \<lparr>lut = [[0, 0]], queue = [[0, 0], [0, 0]], cursor = 0\<rparr>
          0 [] 0 ''query'') = Inr (Query [[1 / 10, 0], [0, 0]])
   \<and> l2norm [1 / 10, 0] = 1 / 10 \<and> l2norm [0, 0] = 0"
  by (simp add: forward_def forward_query_def example_sipn_def example_externals_def
      fc7_of_def func_normalize_def normalize_row_def sum_squares_def flt_max_def
      l2norm_pair_zero eps_def Let_def)

text \<open>
  C7, in the form that holds. On a bank whose lookup-table rows have unit norm, or are
  zero where \<open>normalize\<close> leaves a zero row as it is, any number of update calls with
  momentum \<open>1\<close> leaves the lookup table unchanged, whatever the labels of the batches;
  the whole bank is unchanged when no sample is an unlabeled person. An unlabeled-person
  sample is written into the queue at the cursor whatever the momentum.
\<close>

theorem momentum_one_identity:
  assumes "list_all (\<lambda>r. l2norm r = 1 \<or> l2norm r = 0 \<and> nz r = r) (lut b)"
  shows "lut (fold (\<lambda>ss b. snd (update nz 1 ss b)) batches b) = lut b
     \<and> (list_all (list_all (\<lambda>s. fst s \<noteq> Unlabeled)) batches \<longrightarrow>
          fold (\<lambda>ss b. snd (update nz 1 ss b)) batches b = b)
     \<and> (wf_queue d b \<and> length e = d \<longrightarrow>
          update_one nz m b (Unlabeled, e) =
            Inr (b\<lparr>queue := (queue b)[cursor b := e],
                   cursor := (cursor b + 1) mod length (queue b)\<rparr>))"
  using fold_update_momentum_one [OF assms, of batches] update_one_unlabeled [of d b e nz m]
  by blast

theorem momentum_one_identity_witness:
  "list_all (\<lambda>r. l2norm r = 1 \<or> l2norm r = 0 \<and> keep_zero r = r) [[1, 0], [0, 0]]
   \<and> lut (fold (\<lambda>ss b. snd (update keep_zero 1 ss b))
        [[(Known 0, [0, 1]), (Unlabeled, [0, 1])], [(Known 1, [1, 0]), (Background, [1, 0])]]
        \<lparr>lut = [[1, 0], [0, 0]], queue = [[0, 0]], cursor = 0\<rparr>)
       = [[1, 0], [0, 0]]
   \<and> fold (\<lambda>ss b. snd (update keep_zero 1 ss b))
        [[(Known 0, [0, 1]), (Background, [1, 0])], [(Known 1, [1, 0])]]
        \<lparr>lut = [[1, 0], [0, 0]], queue = [[0, 0]], cursor = 0\<rparr>
       = \<lparr>lut = [[1, 0], [0, 0]], queue = [[0, 0]], cursor = 0\<rparr>
   \<and> update_one keep_zero 1 \<lparr>lut = [[1, 0], [0, 0]], queue = [[0, 0]], cursor = 0\<rparr>
        (Unlabeled, [0, 1])
       = Inr \<lparr>lut = [[1, 0], [0, 0]], queue = [[0, 1]], cursor = 0\<rparr>"
proof -
  let ?b = "\<lparr>lut = [[1, 0], [0, 0]], queue = [[0, 0]], cursor = 0\<rparr>"
  have h0: "list_all (\<lambda>r. l2norm r = 1 \<or> l2norm r = 0 \<and> keep_zero r = r) [[1, 0], [0, 0]]"
    by (simp add: l2norm_pair_zero keep_zero_def)
  then have h1: "list_all (\<lambda>r. l2norm r = 1 \<or> l2norm r = 0 \<and> keep_zero r = r) (lut ?b)"
    by simp
  have h2: "list_all (list_all (\<lambda>s. fst s \<noteq> Unlabeled))
              [[(Known 0, [0, 1 :: real]), (Background, [1, 0])], [(Known 1, [1, 0])]]"
    by simp
  have h3: "wf_queue 2 ?b \<and> length [0, 1 :: real] = 2" by (simp add: wf_queue_def)
  show ?thesis
    using h0 h2 h3
      momentum_one_identity [OF h1, of
        "[[(Known 0, [0, 1]), (Unlabeled, [0, 1])], [(Known 1, [1, 0]), (Background, [1, 0])]]"]
      momentum_one_identity [OF h1, of
        "[[(Known 0, [0, 1]), (Background, [1, 0])], [(Known 1, [1, 0])]]" 2 "[0, 1]" 1]
    by simp
qed

text \<open>
  With momentum \<open>1\<close> an unlabeled-person sample still changes the queue.
\<close>

theorem momentum_one_identity_counterexample:
  "snd (update keep_zero 1 [(Unlabeled, [1])] \<lparr>lut = [[1]], queue = [[0]], cursor = 0\<rparr>)
     = \<lparr>lut = [[1]], queue = [[1]], cursor = 0\<rparr>"
  by simp

text \<open>
  C8. In gallery mode, with four configured means and four configured standard
  deviations, every row of the raw box prediction (8 entries) is multiplied entry by
  entry with the standard deviations, repeated for the two classes, and the means,
  repeated likewise, are added. With means \<open>[0, 0, 0, 0]\<close> and standard deviations
  \<open>[1, 1, 1, 1]\<close> the box prediction returned is the raw one. With any other number of
  means or standard deviations the call fails, also when there is no region.
\<close>

theorem gallery_denormalization:
  assumes "\<not> is_train M"
    and "strpn_gallery X (head X im) gt info = (rois, pooled, trans_feat)"
    and "fc7 = fc7_of M X pooled"
    and "raw = bbox_pred_net X fc7"
    and "list_all (\<lambda>row. length row = 8) raw"
    and "config ''train_bbox_normalize_means'' = Some mean"
    and "config ''train_bbox_normalize_stds'' = Some std"
  shows "(length mean = 4 \<and> length std = 4 \<longrightarrow>
            forward M X (Some config) b im gt info ''gallery'' =
              (Inr (Gallery (softmax X (cls_score_net X fc7))
                 (map (\<lambda>row. map2 (\<lambda>p (s, m). p * s + m) row (zip (std @ std) (mean @ mean))) raw)
                 rois (func_normalize (reid_feat_net X fc7))), b))
     \<and> (mean = [0, 0, 0, 0] \<and> std = [1, 1, 1, 1] \<longrightarrow>
            forward M X (Some config) b im gt info ''gallery'' =
              (Inr (Gallery (softmax X (cls_score_net X fc7)) raw rois
                 (func_normalize (reid_feat_net X fc7))), b))
     \<and> (length mean \<noteq> 4 \<or> length std \<noteq> 4 \<longrightarrow>
            forward M X (Some config) b im gt info ''gallery'' = (Inl ShapeError, b))"
proof -
  have fw: "forward M X (Some config) b im gt info ''gallery'' =
          (case denormalize (Some config) raw of
             Inl err \<Rightarrow> (Inl err, b)
           | Inr boxes \<Rightarrow>
               (Inr (Gallery (softmax X (cls_score_net X fc7)) boxes rois
                      (func_normalize (reid_feat_net X fc7))), b))"
    using assms(1) forward_gallery_eq [OF assms(2)] unfolding assms(3,4)
    by (simp add: forward_def)
  show ?thesis
  proof (intro conjI impI)
    assume "length mean = 4 \<and> length std = 4"
    then have "denormalize (Some config) raw =
        Inr (map (\<lambda>row. map2 (\<lambda>p (s, m). p * s + m) row (zip (std @ std) (mean @ mean))) raw)"
      using denormalize_rows [OF assms(6,7) _ _ assms(5)] by simp
    then show "forward M X (Some config) b im gt info ''gallery'' =
              (Inr (Gallery (softmax X (cls_score_net X fc7))
                 (map (\<lambda>row. map2 (\<lambda>p (s, m). p * s + m) row (zip (std @ std) (mean @ mean))) raw)
                 rois (func_normalize (reid_feat_net X fc7))), b)"
      unfolding fw by simp
  next
    assume "mean = [0, 0, 0, 0] \<and> std = [1, 1, 1, 1]"
    then have "denormalize (Some config) raw = Inr raw"
      using denormalize_identity [OF _ _ assms(5), of config] assms(6,7) by simp
    then show "forward M X (Some config) b im gt info ''gallery'' =
              (Inr (Gallery (softmax X (cls_score_net X fc7)) raw rois
                 (func_normalize (reid_feat_net X fc7))), b)"
      unfolding fw by simp
  next
    assume "length mean \<noteq> 4 \<or> length std \<noteq> 4"
    from denormalize_shape_error [OF assms(6,7) this, of raw]
    show "forward M X (Some config) b im gt info ''gallery'' = (Inl ShapeError, b)"
      unfolding fw by simp
  qed
qed

theorem gallery_denormalization_witness:
  "\<not> is_train (example_sipn False)
   \<and> list_all (\<lambda>row. length row = 8) [[1, 2, 3, 4, 5, 6, 7, 8 :: real]]
   \<and> forward (example_sipn False) (example_externals [] [[1, 0]] [[1, 2, 3, 4, 5, 6, 7, 8]])
        (Some [''train_bbox_normalize_means'' \<mapsto> [0, 0, 0, 0],
               ''train_bbox_normalize_stds'' \<mapsto> [1, 1, 1, 1]])
        \<lparr>lut = [[0, 0]], queue = [[0, 0]], cursor = 0\<rparr> 0 [] 0 ''gallery''
       = (Inr (Gallery [[0, 0]] [[1, 2, 3, 4, 5, 6, 7, 8]] 0 [[1, 0]]),
          \<lparr>lut = [[0, 0]], queue = [[0, 0]], cursor = 0\<rparr>)
   \<and> forward (example_sipn False) (example_externals [] [[1, 0]] [[1, 2, 3, 4, 5, 6, 7, 8]])
        (Some [''train_bbox_normalize_means'' \<mapsto> [1, 0, 0, 0],
               ''train_bbox_normalize_stds'' \<mapsto> [2, 1, 1, 3]])
        \<lparr>lut = [[0, 0]], queue = [[0, 0]], cursor = 0\<rparr> 0 [] 0 ''gallery''
       = (Inr (Gallery [[0, 0]] [[3, 2, 3, 12, 11, 6, 7, 24]] 0 [[1, 0]]),
          \<lparr>lut = [[0, 0]], queue = [[0, 0]], cursor = 0\<rparr>)
   \<and> forward (example_sipn False) (example_externals [] [[1, 0]] [])
        (Some [''train_bbox_normalize_means'' \<mapsto> [0, 0, 0],
               ''train_bbox_normalize_stds'' \<mapsto> [1, 1, 1]])
        \<lparr>lut = [[0, 0]], queue = [[0, 0]], cursor = 0\<rparr> 0 [] 0 ''gallery''
       = (Inl ShapeError, \<lparr>lut = [[0, 0]], queue = [[0, 0]], cursor = 0\<rparr>)"
proof -
  let ?X = "example_externals [] [[1, 0]] [[1, 2, 3, 4, 5, 6, 7, 8]]"
  let ?Y = "example_externals [] [[1, 0]] []"
  let ?b = "\<lparr>lut = [[0, 0]], queue = [[0, 0]], cursor = 0\<rparr>"
  have h1: "\<not> is_train (example_sipn False)" by (simp add: example_sipn_def)
  have h2: "strpn_gallery ?X (head ?X 0) [] 0 = (0, 0, 0)"
    and h2': "strpn_gallery ?Y (head ?Y 0) [] 0 = (0, 0, 0)"
    by (simp_all add: example_externals_def)
  have h3: "(0 :: nat) = fc7_of (example_sipn False) ?X 0"
    and h3': "(0 :: nat) = fc7_of (example_sipn False) ?Y 0"
    by (simp_all add: example_simps)
  have h4: "[[1, 2, 3, 4, 5, 6, 7, 8]] = bbox_pred_net ?X 0"
    and h4': "[] = bbox_pred_net ?Y 0"
    by (simp_all add: example_externals_def)
  have h5: "list_all (\<lambda>row. length row = 8) [[1, 2, 3, 4, 5, 6, 7, 8 :: real]]"
    and h5': "list_all (\<lambda>row. length row = 8) ([] :: mat)"
    by simp_all
  show ?thesis
    using h1 h5
      gallery_denormalization [OF h1 h2 h3 h4 h5, of
        "[''train_bbox_normalize_means'' \<mapsto> [0, 0, 0, 0],
          ''train_bbox_normalize_stds'' \<mapsto> [1, 1, 1, 1]]" "[0, 0, 0, 0]" "[1, 1, 1, 1]" ?b]
      gallery_denormalization [OF h1 h2 h3 h4 h5, of
        "[''train_bbox_normalize_means'' \<mapsto> [1, 0, 0, 0],
          ''train_bbox_normalize_stds'' \<mapsto> [2, 1, 1, 3]]" "[1, 0, 0, 0]" "[2, 1, 1, 3]" ?b]
      gallery_denormalization [OF h1 h2' h3' h4' h5', of
        "[''train_bbox_normalize_means'' \<mapsto> [0, 0, 0],
          ''train_bbox_normalize_stds'' \<mapsto> [1, 1, 1]]" "[0, 0, 0]" "[1, 1, 1]" ?b]
    by (simp add: example_simps)
qed

text \<open>
  C9. The configuration file is a parameter of the forward call, not of the
  construction. A model in training mode and a query-mode call return the same result
  for any two states of the file; a gallery-mode call that cannot open the file raises
  \<open>IOError\<close> and leaves the bank as it was.
\<close>

theorem config_read_only_by_gallery:
  "(is_train M \<or> mode = ''query'' \<longrightarrow>
      forward M X cfg b im gt info mode = forward M X cfg' b im gt info mode)
   \<and> (\<not> is_train M \<and> mode = ''gallery'' \<longrightarrow>
      forward M X None b im gt info mode = (Inl IOError, b))"
  by (simp add: forward_def forward_gallery_def denormalize_def Let_def split: prod.splits)

theorem config_read_only_by_gallery_witness:
  "forward (example_sipn True) (example_externals [Known 0] [[1, 0]] []) None
        \<lparr>lut = [[0, 0]], queue = [[0, 0]], cursor = 0\<rparr> 0 [] 0 ''gallery''
     = forward (example_sipn True) (example_externals [Known 0] [[1, 0]] [])
        (Some [''train_bbox_normalize_means'' \<mapsto> [0, 0, 0, 0]])
        \<lparr>lut = [[0, 0]], queue = [[0, 0]], cursor = 0\<rparr> 0 [] 0 ''gallery''
   \<and> forward (example_sipn False) (example_externals [] [[1, 0]] []) None
        \<lparr>lut = [[0, 0]], queue = [[0, 0]], cursor = 0\<rparr> 0 [] 0 ''gallery''
     = (Inl IOError, \<lparr>lut = [[0, 0]], queue = [[0, 0]], cursor = 0\<rparr>)"
  using
    config_read_only_by_gallery [of "example_sipn True" "''gallery''"
      "example_externals [Known 0] [[1, 0]] []" None
      "\<lparr>lut = [[0, 0]], queue = [[0, 0]], cursor = 0\<rparr>" 0 "[]" 0
      "Some [''train_bbox_normalize_means'' \<mapsto> [0, 0, 0, 0]]"]
    config_read_only_by_gallery [of "example_sipn False" "''gallery''"
      "example_externals [] [[1, 0]] []" None
      "\<lparr>lut = [[0, 0]], queue = [[0, 0]], cursor = 0\<rparr>" 0 "[]" 0 None]
  by (simp add: example_sipn_def)

text \<open>
  C10. On a model constructed with \<open>is_train = True\<close> forward takes the training path
  whatever the mode argument is: it returns the five losses of the training path (or the
  error of the identity loss), it leaves the bank as the update of the batch leaves it,
  the result is the same for any two mode strings, and it is never a \<open>KeyError\<close>.
\<close>

theorem train_ignores_mode:
  assumes "is_train M"
    and "strpn_train X (head X im) gt info =
           (pooled, trans_feat, (rpn_cls_loss, rpn_box_loss), (det_label, pid_label), bbox_info)"
    and "fc7 = fc7_of M X pooled"
    and "embeddings = func_normalize (reid_feat_net X fc7)"
    and "oim_loss (norm_zero X) (oim_xent X) embeddings pid_label b (length gt) (lut_momentum M)
           = (r, b')"
  shows "forward M X cfg b im gt info mode =
           (case r of
              Inl err \<Rightarrow> (Inl err, b')
            | Inr reid_loss \<Rightarrow>
                (Inr (Losses (rpn_cls_loss, rpn_box_loss,
                        cross_entropy X (cls_score_net X fc7) det_label,
                        smooth_l1_loss X (bbox_pred_net X fc7) bbox_info,
                        reid_loss)), b'))
     \<and> (length embeddings = length pid_label \<longrightarrow>
           snd (forward M X cfg b im gt info mode)
             = snd (update (norm_zero X) (lut_momentum M) (zip pid_label embeddings) b))
     \<and> forward M X cfg b im gt info mode = forward M X cfg b im gt info mode'
     \<and> fst (forward M X cfg b im gt info mode) \<noteq> Inl (KeyError s)"
proof -
  have eq: "forward M X cfg b im gt info mode = forward_train M X b im gt info"
    and eq': "forward M X cfg b im gt info mode' = forward_train M X b im gt info"
    using assms(1) by (simp_all add: forward_def)
  note oi = assms(5) [unfolded assms(3,4)]
  have tr: "forward_train M X b im gt info =
           (case r of
              Inl err \<Rightarrow> (Inl err, b')
            | Inr reid_loss \<Rightarrow>
                (Inr (Losses (rpn_cls_loss, rpn_box_loss,
                        cross_entropy X (cls_score_net X fc7) det_label,
                        smooth_l1_loss X (bbox_pred_net X fc7) bbox_info,
                        reid_loss)), b'))"
    using forward_train_eq [OF assms(2) oi] unfolding assms(3) .
  have bank: "snd (forward_train M X b im gt info)
             = snd (update (norm_zero X) (lut_momentum M) (zip pid_label embeddings) b)"
    if "length embeddings = length pid_label"
    using forward_train_bank [OF assms(2), of M b]
      oim_loss_bank [OF that, of "norm_zero X" "oim_xent X" b "length gt" "lut_momentum M"]
    unfolding assms(3,4) by simp
  have "r \<noteq> Inl (KeyError s)"
    using oim_loss_no_key_error
      [of "norm_zero X" "oim_xent X" embeddings pid_label b "length gt" "lut_momentum M" s]
    by (simp add: assms(5))
  then have "fst (forward_train M X b im gt info) \<noteq> Inl (KeyError s)"
    unfolding tr by (cases r) auto
  with eq eq' tr bank show ?thesis by simp
qed

theorem train_ignores_mode_witness:
  "is_train (example_sipn True)
   \<and> forward (example_sipn True) (example_externals [Known 0, Unlabeled] [[3, 0], [0, 2]] [])
        None \<lparr>lut = [[0, 0]], queue = [[0, 0]], cursor = 0\<rparr> 0 [[0]] 0 ''banana''
     = (Inr (Losses (1, 2, 3, 4, 5)), \<lparr>lut = [[1, 0]], queue = [[0, 1]], cursor = 0\<rparr>)
   \<and> forward (example_sipn True) (example_externals [Known 0, Unlabeled] [[3, 0], [0, 2]] [])
        None \<lparr>lut = [[0, 0]], queue = [[0, 0]], cursor = 0\<rparr> 0 [[0]] 0 ''banana''
     = forward (example_sipn True) (example_externals [Known 0, Unlabeled] [[3, 0], [0, 2]] [])
        None \<lparr>lut = [[0, 0]], queue = [[0, 0]], cursor = 0\<rparr> 0 [[0]] 0 ''gallery''
   \<and> fst (forward (example_sipn True)
        (example_externals [Known 0, Unlabeled] [[3, 0], [0, 2]] [])
        None \<lparr>lut = [[0, 0]], queue = [[0, 0]], cursor = 0\<rparr> 0 [[0]] 0 ''banana'')
     \<noteq> Inl (KeyError ''banana'')"
proof -
  let ?X = "example_externals [Known 0, Unlabeled] [[3, 0], [0, 2]] []"
  let ?M = "example_sipn True"
  let ?b = "\<lparr>lut = [[0, 0]], queue = [[0, 0]], cursor = 0\<rparr>"
  let ?b' = "\<lparr>lut = [[1, 0]], queue = [[0, 1]], cursor = 0\<rparr>"
  have h1: "is_train ?M" by (simp add: example_sipn_def)
  have h2: "strpn_train ?X (head ?X 0) [[0]] 0 = (0, 0, (1, 2), (0, [Known 0, Unlabeled]), 0)"
    by (simp add: example_externals_def)
  have h3: "(0 :: nat) = fc7_of ?M ?X 0" by (simp add: example_simps)
  have h4: "[[1, 0], [0, 1]] = func_normalize (reid_feat_net ?X 0)"
    by (simp add: example_simps)
  have h5: "oim_loss (norm_zero ?X) (oim_xent ?X) [[1, 0], [0, 1]] [Known 0, Unlabeled] ?b
              (length [[0 :: real]]) (lut_momentum ?M) = (Inr 5, ?b')"
    by (simp add: example_simps)
  note T = train_ignores_mode [OF h1 h2 h3 h4 h5, of None "''banana''" "''gallery''" "''banana''"]
  from T have A: "forward ?M ?X None ?b 0 [[0]] 0 ''banana'' = (Inr (Losses (1, 2, 3, 4, 5)), ?b')"
    by (simp add: example_externals_def)
  from T have B: "forward ?M ?X None ?b 0 [[0]] 0 ''banana''
      = forward ?M ?X None ?b 0 [[0]] 0 ''gallery''"
    by blast
  from T have C: "fst (forward ?M ?X None ?b 0 [[0]] 0 ''banana'') \<noteq> Inl (KeyError ''banana'')"
    by blast
  from h1 A B C show ?thesis by blast
qed

end
